theory Spec2Isabelle
  imports Main "HOL-Library.Word" "HOL-Library.Multiset" "HOL-Library.Char_ord"
    "HOL-Library.List_Lexorder"
begin

section \<open>Table schema of the key-value layer (internal/kv/tables.go)\<close>

subsection \<open>Table names\<close>

text \<open>
  The string constants of the file. Several constants differ from the string they name
  (\<^verbatim>\<open>EthTx = "BlockTransaction"\<close>); lists, maps and the sort work on the strings.
\<close>

abbreviation PlainState :: string where "PlainState \<equiv> ''PlainState''"
abbreviation PlainContractCode :: string where "PlainContractCode \<equiv> ''PlainCodeHash''"
abbreviation AccountChangeSet :: string where "AccountChangeSet \<equiv> ''AccountChangeSet''"
abbreviation StorageChangeSet :: string where "StorageChangeSet \<equiv> ''StorageChangeSet''"
abbreviation HashedAccounts :: string where "HashedAccounts \<equiv> ''HashedAccount''"
abbreviation HashedStorage :: string where "HashedStorage \<equiv> ''HashedStorage''"
abbreviation AccountsHistory :: string where "AccountsHistory \<equiv> ''AccountHistory''"
abbreviation StorageHistory :: string where "StorageHistory \<equiv> ''StorageHistory''"
abbreviation Code :: string where "Code \<equiv> ''Code''"
abbreviation ContractCode :: string where "ContractCode \<equiv> ''HashedCodeHash''"
abbreviation IncarnationMap :: string where "IncarnationMap \<equiv> ''IncarnationMap''"
abbreviation ContractTEVMCode :: string where "ContractTEVMCode \<equiv> ''TEVMCode''"
abbreviation TrieOfAccounts :: string where "TrieOfAccounts \<equiv> ''TrieAccount''"
abbreviation TrieOfStorage :: string where "TrieOfStorage \<equiv> ''TrieStorage''"
abbreviation DatabaseInfo :: string where "DatabaseInfo \<equiv> ''DbInfo''"
abbreviation HeaderNumber :: string where "HeaderNumber \<equiv> ''HeaderNumber''"
abbreviation HeaderCanonical :: string where "HeaderCanonical \<equiv> ''CanonicalHeader''"
abbreviation Headers :: string where "Headers \<equiv> ''Header''"
abbreviation HeaderTD :: string where "HeaderTD \<equiv> ''HeadersTotalDifficulty''"
abbreviation BlockBody :: string where "BlockBody \<equiv> ''BlockBody''"
abbreviation EthTx :: string where "EthTx \<equiv> ''BlockTransaction''"
abbreviation NonCanonicalTxs :: string where "NonCanonicalTxs \<equiv> ''NonCanonicalTransaction''"
abbreviation Receipts :: string where "Receipts \<equiv> ''Receipt''"
abbreviation Log :: string where "Log \<equiv> ''TransactionLog''"
abbreviation LogTopicIndex :: string where "LogTopicIndex \<equiv> ''LogTopicIndex''"
abbreviation LogAddressIndex :: string where "LogAddressIndex \<equiv> ''LogAddressIndex''"
abbreviation CallTraceSet :: string where "CallTraceSet \<equiv> ''CallTraceSet''"
abbreviation CallFromIndex :: string where "CallFromIndex \<equiv> ''CallFromIndex''"
abbreviation CallToIndex :: string where "CallToIndex \<equiv> ''CallToIndex''"
abbreviation CumulativeGasIndex :: string where "CumulativeGasIndex \<equiv> ''CumulativeGasIndex''"
abbreviation CumulativeTransactionIndex :: string where "CumulativeTransactionIndex \<equiv> ''CumulativeTransactionIndex''"
abbreviation TxLookup :: string where "TxLookup \<equiv> ''BlockTransactionLookup''"
abbreviation ConfigTable :: string where "ConfigTable \<equiv> ''Config''"
abbreviation SyncStageProgress :: string where "SyncStageProgress \<equiv> ''SyncStage''"
abbreviation Clique :: string where "Clique \<equiv> ''Clique''"
abbreviation CliqueSeparate :: string where "CliqueSeparate \<equiv> ''CliqueSeparate''"
abbreviation CliqueSnapshot :: string where "CliqueSnapshot \<equiv> ''CliqueSnapshot''"
abbreviation CliqueLastSnapshot :: string where "CliqueLastSnapshot \<equiv> ''CliqueLastSnapshot''"
abbreviation ParliaSnapshot :: string where "ParliaSnapshot \<equiv> ''ParliaSnapshot''"
abbreviation CurrentExecutionPayload :: string where "CurrentExecutionPayload \<equiv> ''CurrentExecutionPayload''"
abbreviation NodeRecords :: string where "NodeRecords \<equiv> ''NodeRecord''"
abbreviation Inodes :: string where "Inodes \<equiv> ''Inode''"
abbreviation Senders :: string where "Senders \<equiv> ''TxSender''"
abbreviation HeadBlockKey :: string where "HeadBlockKey \<equiv> ''LastBlock''"
abbreviation HeadHeaderKey :: string where "HeadHeaderKey \<equiv> ''LastHeader''"
abbreviation LastForkchoice :: string where "LastForkchoice \<equiv> ''LastForkchoice''"
abbreviation TransitionBlockKey :: string where "TransitionBlockKey \<equiv> ''TransitionBlock''"
abbreviation Migrations :: string where "Migrations \<equiv> ''Migration''"
abbreviation Sequence :: string where "Sequence \<equiv> ''Sequence''"
abbreviation Epoch :: string where "Epoch \<equiv> ''DevEpoch''"
abbreviation PendingEpoch :: string where "PendingEpoch \<equiv> ''DevPendingEpoch''"
abbreviation Issuance :: string where "Issuance \<equiv> ''Issuance''"
abbreviation StateAccounts :: string where "StateAccounts \<equiv> ''StateAccounts''"
abbreviation StateStorage :: string where "StateStorage \<equiv> ''StateStorage''"
abbreviation StateCode :: string where "StateCode \<equiv> ''StateCode''"
abbreviation StateCommitment :: string where "StateCommitment \<equiv> ''StateCommitment''"
abbreviation BorReceipts :: string where "BorReceipts \<equiv> ''BorReceipt''"
abbreviation BorTxLookup :: string where "BorTxLookup \<equiv> ''BlockBorTransactionLookup''"
abbreviation BorSeparate :: string where "BorSeparate \<equiv> ''BorSeparate''"
abbreviation BittorrentCompletion :: string where "BittorrentCompletion \<equiv> ''BittorrentCompletion''"
abbreviation BittorrentInfo :: string where "BittorrentInfo \<equiv> ''BittorrentInfo''"
abbreviation AccountKeys :: string where "AccountKeys \<equiv> ''AccountKeys''"
abbreviation AccountVals :: string where "AccountVals \<equiv> ''AccountVals''"
abbreviation AccountHistoryKeys :: string where "AccountHistoryKeys \<equiv> ''AccountHistoryKeys''"
abbreviation AccountHistoryVals :: string where "AccountHistoryVals \<equiv> ''AccountHistoryVals''"
abbreviation AccountSettings :: string where "AccountSettings \<equiv> ''AccountSettings''"
abbreviation AccountIdx :: string where "AccountIdx \<equiv> ''AccountIdx''"
abbreviation StorageKeys :: string where "StorageKeys \<equiv> ''StorageKeys''"
abbreviation StorageVals :: string where "StorageVals \<equiv> ''StorageVals''"
abbreviation StorageHistoryKeys :: string where "StorageHistoryKeys \<equiv> ''StorageHistoryKeys''"
abbreviation StorageHistoryVals :: string where "StorageHistoryVals \<equiv> ''StorageHistoryVals''"
abbreviation StorageSettings :: string where "StorageSettings \<equiv> ''StorageSettings''"
abbreviation StorageIdx :: string where "StorageIdx \<equiv> ''StorageIdx''"
abbreviation CodeKeys :: string where "CodeKeys \<equiv> ''CodeKeys''"
abbreviation CodeVals :: string where "CodeVals \<equiv> ''CodeVals''"
abbreviation CodeHistoryKeys :: string where "CodeHistoryKeys \<equiv> ''CodeHistoryKeys''"
abbreviation CodeHistoryVals :: string where "CodeHistoryVals \<equiv> ''CodeHistoryVals''"
abbreviation CodeSettings :: string where "CodeSettings \<equiv> ''CodeSettings''"
abbreviation CodeIdx :: string where "CodeIdx \<equiv> ''CodeIdx''"
abbreviation LogAddressKeys :: string where "LogAddressKeys \<equiv> ''LogAddressKeys''"
abbreviation LogAddressIdx :: string where "LogAddressIdx \<equiv> ''LogAddressIdx''"
abbreviation LogTopicsKeys :: string where "LogTopicsKeys \<equiv> ''LogTopicsKeys''"
abbreviation LogTopicsIdx :: string where "LogTopicsIdx \<equiv> ''LogTopicsIdx''"
abbreviation TracesFromKeys :: string where "TracesFromKeys \<equiv> ''TracesFromKeys''"
abbreviation TracesFromIdx :: string where "TracesFromIdx \<equiv> ''TracesFromIdx''"
abbreviation TracesToKeys :: string where "TracesToKeys \<equiv> ''TracesToKeys''"
abbreviation TracesToIdx :: string where "TracesToIdx \<equiv> ''TracesToIdx''"
abbreviation Snapshots :: string where "Snapshots \<equiv> ''Snapshots''"
abbreviation RAccountKeys :: string where "RAccountKeys \<equiv> ''RAccountKeys''"
abbreviation RAccountIdx :: string where "RAccountIdx \<equiv> ''RAccountIdx''"
abbreviation RStorageKeys :: string where "RStorageKeys \<equiv> ''RStorageKeys''"
abbreviation RStorageIdx :: string where "RStorageIdx \<equiv> ''RStorageIdx''"
abbreviation RCodeKeys :: string where "RCodeKeys \<equiv> ''RCodeKeys''"
abbreviation RCodeIdx :: string where "RCodeIdx \<equiv> ''RCodeIdx''"
abbreviation PlainStateR :: string where "PlainStateR \<equiv> ''PlainStateR''"
abbreviation CodeR :: string where "CodeR \<equiv> ''CodeR''"
abbreviation PlainContractR :: string where "PlainContractR \<equiv> ''PlainContractR''"
abbreviation XAccount :: string where "XAccount \<equiv> ''XAccount''"
abbreviation XStorage :: string where "XStorage \<equiv> ''XStorage''"
abbreviation XCode :: string where "XCode \<equiv> ''XCode''"
abbreviation RecentLocalTransaction :: string where "RecentLocalTransaction \<equiv> ''RecentLocalTransaction''"
abbreviation PoolTransaction :: string where "PoolTransaction \<equiv> ''PoolTransaction''"
abbreviation PoolInfo :: string where "PoolInfo \<equiv> ''PoolInfo''"

subsection \<open>Table flags and configuration entries\<close>

text \<open>
  \<^verbatim>\<open>type DBI uint\<close> and \<^verbatim>\<open>type TableFlags uint\<close>: the file does no arithmetic
  on either, so both are natural numbers. \<^verbatim>\<open>DupFromLen\<close> and \<^verbatim>\<open>DupToLen\<close> are
  Go \<^verbatim>\<open>int\<close>s and may be negative.
\<close>

type_synonym DBI = nat
type_synonym TableFlags = nat
type_synonym byte = "8 word"

definition Default :: TableFlags where "Default = 0"
definition ReverseKey :: TableFlags where "ReverseKey = 2"
definition DupSort :: TableFlags where "DupSort = 4"
definition IntegerKey :: TableFlags where "IntegerKey = 8"
definition IntegerDup :: TableFlags where "IntegerDup = 32"
definition ReverseDup :: TableFlags where "ReverseDup = 64"

record TableCfgItem =
  Flags :: TableFlags
  AutoDupSortKeysConversion :: bool
  IsDeprecated :: bool
  DBI :: DBI
  DupFromLen :: int
  DupToLen :: int

type_synonym TableCfg = "string \<rightharpoonup> TableCfgItem"

text \<open>The zero value \<^verbatim>\<open>TableCfgItem{}\<close>.\<close>

definition zero_item :: TableCfgItem where
  "zero_item = \<lparr>Flags = 0, AutoDupSortKeysConversion = False, IsDeprecated = False,
     DBI = 0, DupFromLen = 0, DupToLen = 0\<rparr>"

subsection \<open>The package variables\<close>

text \<open>
  The table lists and the configuration maps are package-level variables that
  \<^verbatim>\<open>reinit\<close> reads and writes: they are the fields of the state. A Go map is a
  partial function from names to entries.
\<close>

record vars =
  ChaindataTables :: "string list"
  TxPoolTables :: "string list"
  SentryTables :: "string list"
  DownloaderTables :: "string list"
  ReconTables :: "string list"
  ChaindataDeprecatedTables :: "string list"
  ChaindataTablesCfg :: TableCfg
  TxpoolTablesCfg :: TableCfg
  SentryTablesCfg :: TableCfg
  DownloaderTablesCfg :: TableCfg
  ReconTablesCfg :: TableCfg

text \<open>The initialisers of the variables, in the order of the source.\<close>

definition init_ChaindataTables :: "string list" where
  "init_ChaindataTables =
    [AccountsHistory, StorageHistory, Code, ContractCode, HeaderNumber, BlockBody,
     Receipts, TxLookup, ConfigTable, CurrentExecutionPayload, DatabaseInfo,
     IncarnationMap, ContractTEVMCode, CliqueSeparate, CliqueLastSnapshot, CliqueSnapshot,
     ParliaSnapshot, SyncStageProgress, PlainState, PlainContractCode, AccountChangeSet,
     StorageChangeSet, Senders, HeadBlockKey, HeadHeaderKey, LastForkchoice, Migrations,
     LogTopicIndex, LogAddressIndex, CallTraceSet, CallFromIndex, CallToIndex,
     CumulativeGasIndex, CumulativeTransactionIndex, Log, Sequence, EthTx, NonCanonicalTxs,
     TrieOfAccounts, TrieOfStorage, HashedAccounts, HashedStorage, HeaderCanonical,
     Headers, HeaderTD, Epoch, PendingEpoch, Issuance, StateAccounts, StateStorage,
     StateCode, StateCommitment, BorReceipts, BorTxLookup, BorSeparate, AccountKeys,
     AccountVals, AccountHistoryKeys, AccountHistoryVals, AccountSettings, AccountIdx,
     StorageKeys, StorageVals, StorageHistoryKeys, StorageHistoryVals, StorageSettings,
     StorageIdx, CodeKeys, CodeVals, CodeHistoryKeys, CodeHistoryVals, CodeSettings,
     CodeIdx, LogAddressKeys, LogAddressIdx, LogTopicsKeys, LogTopicsIdx, TracesFromKeys,
     TracesFromIdx, TracesToKeys, TracesToIdx, Snapshots, RAccountKeys, RAccountIdx,
     RStorageKeys, RStorageIdx, RCodeKeys, RCodeIdx]"

definition init_TxPoolTables :: "string list" where
  "init_TxPoolTables =
    [RecentLocalTransaction, PoolTransaction, PoolInfo]"

definition init_SentryTables :: "string list" where
  "init_SentryTables =
    []"

definition init_DownloaderTables :: "string list" where
  "init_DownloaderTables =
    [BittorrentCompletion, BittorrentInfo]"

definition init_ReconTables :: "string list" where
  "init_ReconTables =
    [XAccount, XStorage, XCode, PlainStateR, CodeR, PlainContractR]"

definition init_ChaindataDeprecatedTables :: "string list" where
  "init_ChaindataDeprecatedTables =
    [Clique, TransitionBlockKey]"

definition init_ChaindataTablesCfg :: TableCfg where
  "init_ChaindataTablesCfg = map_of
    [(HashedStorage, zero_item\<lparr>Flags := DupSort, AutoDupSortKeysConversion := True,
        DupFromLen := 72, DupToLen := 40\<rparr>),
     (AccountChangeSet, zero_item\<lparr>Flags := DupSort\<rparr>),
     (StorageChangeSet, zero_item\<lparr>Flags := DupSort\<rparr>),
     (PlainState, zero_item\<lparr>Flags := DupSort, AutoDupSortKeysConversion := True,
        DupFromLen := 60, DupToLen := 28\<rparr>),
     (CallTraceSet, zero_item\<lparr>Flags := DupSort\<rparr>),
     (AccountKeys, zero_item\<lparr>Flags := DupSort\<rparr>),
     (AccountHistoryKeys, zero_item\<lparr>Flags := DupSort\<rparr>),
     (AccountIdx, zero_item\<lparr>Flags := DupSort\<rparr>),
     (StorageKeys, zero_item\<lparr>Flags := DupSort\<rparr>),
     (StorageHistoryKeys, zero_item\<lparr>Flags := DupSort\<rparr>),
     (StorageIdx, zero_item\<lparr>Flags := DupSort\<rparr>),
     (CodeKeys, zero_item\<lparr>Flags := DupSort\<rparr>),
     (CodeHistoryKeys, zero_item\<lparr>Flags := DupSort\<rparr>),
     (CodeIdx, zero_item\<lparr>Flags := DupSort\<rparr>),
     (LogAddressKeys, zero_item\<lparr>Flags := DupSort\<rparr>),
     (LogAddressIdx, zero_item\<lparr>Flags := DupSort\<rparr>),
     (LogTopicsKeys, zero_item\<lparr>Flags := DupSort\<rparr>),
     (LogTopicsIdx, zero_item\<lparr>Flags := DupSort\<rparr>),
     (TracesFromKeys, zero_item\<lparr>Flags := DupSort\<rparr>),
     (TracesFromIdx, zero_item\<lparr>Flags := DupSort\<rparr>),
     (TracesToKeys, zero_item\<lparr>Flags := DupSort\<rparr>),
     (TracesToIdx, zero_item\<lparr>Flags := DupSort\<rparr>),
     (RAccountKeys, zero_item\<lparr>Flags := DupSort\<rparr>),
     (RAccountIdx, zero_item\<lparr>Flags := DupSort\<rparr>),
     (RStorageKeys, zero_item\<lparr>Flags := DupSort\<rparr>),
     (RStorageIdx, zero_item\<lparr>Flags := DupSort\<rparr>),
     (RCodeKeys, zero_item\<lparr>Flags := DupSort\<rparr>),
     (RCodeIdx, zero_item\<lparr>Flags := DupSort\<rparr>)]"

definition initial :: vars where
  "initial =
     \<lparr>ChaindataTables = init_ChaindataTables,
      TxPoolTables = init_TxPoolTables,
      SentryTables = init_SentryTables,
      DownloaderTables = init_DownloaderTables,
      ReconTables = init_ReconTables,
      ChaindataDeprecatedTables = init_ChaindataDeprecatedTables,
      ChaindataTablesCfg = init_ChaindataTablesCfg,
      TxpoolTablesCfg = Map.empty,
      SentryTablesCfg = Map.empty,
      DownloaderTablesCfg = Map.empty,
      ReconTablesCfg = Map.empty\<rparr>"

subsection \<open>Sorting the chain-data table list\<close>

text \<open>
  \<^verbatim>\<open>strings.Compare\<close> compares two strings byte by byte and returns -1, 0 or 1.
\<close>

fun strings_Compare :: "string \<Rightarrow> string \<Rightarrow> int" where
  "strings_Compare [] [] = 0"
| "strings_Compare [] (b # v) = - 1"
| "strings_Compare (a # u) [] = 1"
| "strings_Compare (a # u) (b # v) =
     (if (of_char a :: nat) < of_char b then - 1
      else if (of_char b :: nat) < of_char a then 1
      else strings_Compare u v)"

text \<open>
  \<^verbatim>\<open>sort.SliceStable\<close> sorts a slice by a \<open>less\<close> function and keeps elements
  that compare equal in their original order. The model is the stable insertion sort:
  an element is inserted in front of the first element of the sorted rest that is not
  less than it.
\<close>

fun insert_stable :: "('a \<Rightarrow> 'a \<Rightarrow> bool) \<Rightarrow> 'a \<Rightarrow> 'a list \<Rightarrow> 'a list" where
  "insert_stable lt x [] = [x]"
| "insert_stable lt x (y # ys) =
     (if lt y x then y # insert_stable lt x ys else x # y # ys)"

fun sort_SliceStable :: "('a \<Rightarrow> 'a \<Rightarrow> bool) \<Rightarrow> 'a list \<Rightarrow> 'a list" where
  "sort_SliceStable lt [] = []"
| "sort_SliceStable lt (x # xs) = insert_stable lt x (sort_SliceStable lt xs)"

definition sortBuckets :: "vars \<Rightarrow> vars" where
  "sortBuckets s =
     s\<lparr>ChaindataTables :=
         sort_SliceStable (\<lambda>a b. strings_Compare a b < 0) (ChaindataTables s)\<rparr>"

subsection \<open>Initialisation: reinit\<close>

text \<open>
  The loop \<^verbatim>\<open>for _, name := range T { if _, ok := Cfg[name]; !ok { Cfg[name] = TableCfgItem{} } }\<close>
  that \<^verbatim>\<open>reinit\<close> runs for each of the five catalogs.
\<close>

fun fill_defaults :: "string list \<Rightarrow> TableCfg \<Rightarrow> TableCfg" where
  "fill_defaults [] cfg = cfg"
| "fill_defaults (name # names) cfg =
     fill_defaults names (if cfg name = None then cfg(name \<mapsto> zero_item) else cfg)"

text \<open>
  The loop over \<^verbatim>\<open>ChaindataDeprecatedTables\<close>: a missing entry is created, then the
  entry is read (a Go map read gives the zero value for a missing key), marked and
  written back.
\<close>

fun mark_deprecated :: "string list \<Rightarrow> TableCfg \<Rightarrow> TableCfg" where
  "mark_deprecated [] cfg = cfg"
| "mark_deprecated (name # names) cfg =
     (let cfg1 = (if cfg name = None then cfg(name \<mapsto> zero_item) else cfg);
          tmp = (case cfg1 name of Some c \<Rightarrow> c | None \<Rightarrow> zero_item)
      in mark_deprecated names (cfg1(name \<mapsto> tmp\<lparr>IsDeprecated := True\<rparr>)))"

definition reinit :: "vars \<Rightarrow> vars" where
  "reinit s =
     (let s1 = sortBuckets s;
          s2 = s1\<lparr>ChaindataTablesCfg :=
                  fill_defaults (ChaindataTables s1) (ChaindataTablesCfg s1)\<rparr>;
          s3 = s2\<lparr>ChaindataTablesCfg :=
                  mark_deprecated (ChaindataDeprecatedTables s2) (ChaindataTablesCfg s2)\<rparr>;
          s4 = s3\<lparr>TxpoolTablesCfg :=
                  fill_defaults (TxPoolTables s3) (TxpoolTablesCfg s3)\<rparr>;
          s5 = s4\<lparr>SentryTablesCfg :=
                  fill_defaults (SentryTables s4) (SentryTablesCfg s4)\<rparr>;
          s6 = s5\<lparr>DownloaderTablesCfg :=
                  fill_defaults (DownloaderTables s5) (DownloaderTablesCfg s5)\<rparr>
      in s6\<lparr>ReconTablesCfg :=
                  fill_defaults (ReconTables s6) (ReconTablesCfg s6)\<rparr>)"

text \<open>\<^verbatim>\<open>func init() { reinit() }\<close>: the state of the package once it is loaded.\<close>

definition init :: vars where
  "init = reinit initial"

subsection \<open>The DupSort codec\<close>

text \<open>
  Modelled from the spec: the functions that apply the key transformation are not in
  tables.go, which only declares the parameters and documents the transformation in the
  comment of \<^verbatim>\<open>DupFromLen\<close>: if the key has this length,
  \<^verbatim>\<open>v = append(k[DupToLen:], v...); k = k[:DupToLen]\<close>, and the opposite at retrieval,
  only if \<^verbatim>\<open>AutoDupSortKeysConversion\<close> is enabled. \<open>encode\<close> follows section 4.3 of the
  specification: identity when conversion is disabled; a key of length \<open>dupFromLen\<close> is
  split at \<open>dupToLen\<close>; any other key is passed through unchanged. The slices
  \<^verbatim>\<open>key[:n]\<close> and \<^verbatim>\<open>key[n:]\<close> are \<open>take\<close> and \<open>drop\<close>; they are within the
  bounds of the key exactly when \<open>0 \<le> n \<le> length key\<close>.
\<close>

definition encode :: "TableCfgItem \<Rightarrow> byte list \<Rightarrow> byte list \<Rightarrow> byte list \<times> byte list" where
  "encode cfg key val =
     (if AutoDupSortKeysConversion cfg \<and> int (length key) = DupFromLen cfg
      then (take (nat (DupToLen cfg)) key, drop (nat (DupToLen cfg)) key @ val)
      else (key, val))"

text \<open>
  Modelled from the spec: \<open>decode\<close> is the inverse split of section 4.3. The logical key
  is the physical key followed by the first \<open>dupFromLen - dupToLen\<close> bytes of the
  physical value, the logical value is the remainder. It is the identity when conversion
  is disabled, and (section 7) a pair whose key length does not fit the table's split,
  that is a physical key whose length is not \<open>dupToLen\<close>, is passed through unchanged.
\<close>

definition decode :: "TableCfgItem \<Rightarrow> byte list \<Rightarrow> byte list \<Rightarrow> byte list \<times> byte list" where
  "decode cfg pkey pval =
     (if AutoDupSortKeysConversion cfg \<and> int (length pkey) = DupToLen cfg
      then (pkey @ take (nat (DupFromLen cfg - DupToLen cfg)) pval,
            drop (nat (DupFromLen cfg - DupToLen cfg)) pval)
      else (pkey, pval))"

text \<open>
  The invariant of a configuration entry (section 3 of the specification):
  \<open>dupFromLen \<ge> dupToLen \<ge> 0\<close> when conversion is enabled.
\<close>

definition dup_lens_ok :: "TableCfgItem \<Rightarrow> bool" where
  "dup_lens_ok cfg \<longleftrightarrow>
     (AutoDupSortKeysConversion cfg \<longrightarrow> 0 \<le> DupToLen cfg \<and> DupToLen cfg \<le> DupFromLen cfg)"

section \<open>Properties of the codec\<close>

lemma encode_split:
  assumes "AutoDupSortKeysConversion cfg" and "int (length key) = DupFromLen cfg"
  shows "encode cfg key val = (take (nat (DupToLen cfg)) key, drop (nat (DupToLen cfg)) key @ val)"
  using assms by (simp add: encode_def)

lemma encode_keeps_bytes: "(case encode cfg key val of (pk, pv) \<Rightarrow> pk @ pv) = key @ val"
  by (simp add: encode_def)

text \<open>
  C1. Round trip: for a table with conversion enabled whose lengths satisfy the invariant
  of a configuration entry (\<open>DupFromLen \<ge> DupToLen \<ge> 0\<close>), for every key of length
  exactly \<open>DupFromLen\<close> and every value, decoding the encoded pair returns the original
  key and value. The tables of PlainState (60, 28) and HashedStorage (72, 40) are
  instances.
\<close>

theorem decode_encode_roundtrip:
  assumes conv: "AutoDupSortKeysConversion cfg"
    and inv: "dup_lens_ok cfg"
    and len: "int (length key) = DupFromLen cfg"
  shows "(case encode cfg key val of (pk, pv) \<Rightarrow> decode cfg pk pv) = (key, val)"
proof -
  let ?to = "nat (DupToLen cfg)"
  from conv inv have to0: "0 \<le> DupToLen cfg" and tofrom: "DupToLen cfg \<le> DupFromLen cfg"
    by (simp_all add: dup_lens_ok_def)
  have enc: "encode cfg key val = (take ?to key, drop ?to key @ val)"
    using conv len by (rule encode_split)
  have plen: "int (length (take ?to key)) = DupToLen cfg"
    using to0 tofrom len by simp
  have width: "nat (DupFromLen cfg - DupToLen cfg) = length (drop ?to key)"
    using to0 tofrom len by simp
  have "decode cfg (take ?to key) (drop ?to key @ val)
        = (take ?to key @ take (length (drop ?to key)) (drop ?to key @ val),
           drop (length (drop ?to key)) (drop ?to key @ val))"
    using conv plen by (simp only: decode_def width if_True simp_thms)
  also have "\<dots> = (key, val)"
    by simp
  finally show ?thesis
    by (simp only: enc prod.case)
qed

theorem decode_encode_roundtrip_witness:
  "AutoDupSortKeysConversion
     (zero_item\<lparr>Flags := DupSort, AutoDupSortKeysConversion := True,
        DupFromLen := 60, DupToLen := 28\<rparr>) \<and>
   dup_lens_ok
     (zero_item\<lparr>Flags := DupSort, AutoDupSortKeysConversion := True,
        DupFromLen := 60, DupToLen := 28\<rparr>) \<and>
   int (length (replicate 28 (1::byte) @ replicate 32 2)) =
     DupFromLen (zero_item\<lparr>Flags := DupSort, AutoDupSortKeysConversion := True,
        DupFromLen := 60, DupToLen := 28\<rparr>) \<and>
   encode
     (zero_item\<lparr>Flags := DupSort, AutoDupSortKeysConversion := True,
        DupFromLen := 60, DupToLen := 28\<rparr>)
     (replicate 28 1 @ replicate 32 2) [3, 4]
     = (replicate 28 1, replicate 32 2 @ [3, 4]) \<and>
   decode
     (zero_item\<lparr>Flags := DupSort, AutoDupSortKeysConversion := True,
        DupFromLen := 60, DupToLen := 28\<rparr>)
     (replicate 28 1) (replicate 32 2 @ [3, 4])
     = (replicate 28 1 @ replicate 32 2, [3, 4]) \<and>
   dup_lens_ok
     (zero_item\<lparr>Flags := DupSort, AutoDupSortKeysConversion := True,
        DupFromLen := 72, DupToLen := 40\<rparr>) \<and>
   int (length (replicate 40 (5::byte) @ replicate 32 6)) =
     DupFromLen (zero_item\<lparr>Flags := DupSort, AutoDupSortKeysConversion := True,
        DupFromLen := 72, DupToLen := 40\<rparr>) \<and>
   encode
     (zero_item\<lparr>Flags := DupSort, AutoDupSortKeysConversion := True,
        DupFromLen := 72, DupToLen := 40\<rparr>)
     (replicate 40 5 @ replicate 32 6) []
     = (replicate 40 5, replicate 32 6) \<and>
   decode
     (zero_item\<lparr>Flags := DupSort, AutoDupSortKeysConversion := True,
        DupFromLen := 72, DupToLen := 40\<rparr>)
     (replicate 40 5) (replicate 32 6)
     = (replicate 40 5 @ replicate 32 6, [])"
  using
    decode_encode_roundtrip
      [of "zero_item\<lparr>Flags := DupSort, AutoDupSortKeysConversion := True,
             DupFromLen := 60, DupToLen := 28\<rparr>"
          "replicate 28 (1::byte) @ replicate 32 2" "[3, 4]"]
    decode_encode_roundtrip
      [of "zero_item\<lparr>Flags := DupSort, AutoDupSortKeysConversion := True,
             DupFromLen := 72, DupToLen := 40\<rparr>"
          "replicate 40 (5::byte) @ replicate 32 6" "[]"]
  by (simp add: dup_lens_ok_def encode_def zero_item_def)

text \<open>
  C2. \<open>encode\<close> is the identity when conversion is disabled (and so is \<open>decode\<close>); with
  conversion enabled, a key of length \<open>DupFromLen\<close> is split into the physical key
  \<^verbatim>\<open>key[:DupToLen]\<close> and the physical value \<^verbatim>\<open>key[DupToLen:]\<close> followed by the
  value; with conversion enabled, a key of any other length is returned unchanged
  together with its value.
\<close>

theorem encode_cases:
  "(\<not> AutoDupSortKeysConversion cfg \<longrightarrow>
      encode cfg key val = (key, val) \<and> decode cfg key val = (key, val)) \<and>
   (AutoDupSortKeysConversion cfg \<and> int (length key) = DupFromLen cfg \<longrightarrow>
      encode cfg key val =
        (take (nat (DupToLen cfg)) key, drop (nat (DupToLen cfg)) key @ val)) \<and>
   (AutoDupSortKeysConversion cfg \<and> int (length key) \<noteq> DupFromLen cfg \<longrightarrow>
      encode cfg key val = (key, val))"
  by (simp add: encode_def decode_def)

theorem encode_cases_witness:
  "\<not> AutoDupSortKeysConversion (zero_item\<lparr>Flags := DupSort\<rparr>) \<and>
   encode (zero_item\<lparr>Flags := DupSort\<rparr>) [1, 2, 3] [4] = ([1, 2, 3], [4]) \<and>
   decode (zero_item\<lparr>Flags := DupSort\<rparr>) [1, 2, 3] [4] = ([1, 2, 3], [4]) \<and>
   AutoDupSortKeysConversion
     (zero_item\<lparr>AutoDupSortKeysConversion := True, DupFromLen := 3, DupToLen := 1\<rparr>) \<and>
   int (length [1 :: byte, 2, 3]) =
     DupFromLen (zero_item\<lparr>AutoDupSortKeysConversion := True, DupFromLen := 3, DupToLen := 1\<rparr>) \<and>
   encode (zero_item\<lparr>AutoDupSortKeysConversion := True, DupFromLen := 3, DupToLen := 1\<rparr>)
     [1, 2, 3] [4] = ([1], [2, 3, 4]) \<and>
   int (length [1 :: byte, 2]) \<noteq>
     DupFromLen (zero_item\<lparr>AutoDupSortKeysConversion := True, DupFromLen := 3, DupToLen := 1\<rparr>) \<and>
   encode (zero_item\<lparr>AutoDupSortKeysConversion := True, DupFromLen := 3, DupToLen := 1\<rparr>)
     [1, 2] [4] = ([1, 2], [4])"
  using
    encode_cases [of "zero_item\<lparr>Flags := DupSort\<rparr>" "[1, 2, 3]" "[4]"]
    encode_cases [of "zero_item\<lparr>AutoDupSortKeysConversion := True, DupFromLen := 3,
                        DupToLen := 1\<rparr>" "[1, 2, 3]" "[4]"]
    encode_cases [of "zero_item\<lparr>AutoDupSortKeysConversion := True, DupFromLen := 3,
                        DupToLen := 1\<rparr>" "[1, 2]" "[4]"]
  by (simp add: zero_item_def)

section \<open>Properties of the sort\<close>

lemma strings_Compare_less: "strings_Compare a b < 0 \<longleftrightarrow> a < b"
  by (induction a b rule: strings_Compare.induct) (auto simp: less_char_def)

lemma strings_Compare_le: "strings_Compare a b \<le> 0 \<longleftrightarrow> a \<le> b"
  by (induction a b rule: strings_Compare.induct) (auto simp: less_char_def)

lemma insert_stable_insort:
  "insert_stable (\<lambda>a b. strings_Compare a b < 0) x ys = insort x ys"
  by (induction ys) (auto simp: strings_Compare_less)

lemma sort_SliceStable_sort:
  "sort_SliceStable (\<lambda>a b. strings_Compare a b < 0) xs = sort xs"
  by (induction xs) (auto simp: insert_stable_insort sort_key_def)

lemma ChaindataTables_sortBuckets: "ChaindataTables (sortBuckets s) = sort (ChaindataTables s)"
  by (simp add: sortBuckets_def sort_SliceStable_sort)

lemma sorted_wrt_Compare: "sorted_wrt (\<lambda>a b. strings_Compare a b \<le> 0) xs = sorted xs"
  by (simp add: strings_Compare_le)

text \<open>
  C5. \<open>sortBuckets\<close> leaves the chain-data table list in byte-wise ascending order: the
  list is a permutation of the one before, every element compares less than or equal to
  every later one, and two lists that are permutations of each other are sorted into
  the same sequence.
\<close>

theorem sortBuckets_canonical:
  "sorted_wrt (\<lambda>a b. strings_Compare a b \<le> 0) (ChaindataTables (sortBuckets s)) \<and>
   mset (ChaindataTables (sortBuckets s)) = mset (ChaindataTables s) \<and>
   (mset (ChaindataTables t) = mset (ChaindataTables s) \<longrightarrow>
      ChaindataTables (sortBuckets t) = ChaindataTables (sortBuckets s))"
proof (intro conjI impI)
  show "sorted_wrt (\<lambda>a b. strings_Compare a b \<le> 0) (ChaindataTables (sortBuckets s))"
    by (simp add: ChaindataTables_sortBuckets sorted_wrt_Compare)
  show "mset (ChaindataTables (sortBuckets s)) = mset (ChaindataTables s)"
    by (simp add: ChaindataTables_sortBuckets)
  assume "mset (ChaindataTables t) = mset (ChaindataTables s)"
  then show "ChaindataTables (sortBuckets t) = ChaindataTables (sortBuckets s)"
    by (simp add: ChaindataTables_sortBuckets properties_for_sort)
qed

theorem sortBuckets_canonical_witness:
  "mset (ChaindataTables (initial\<lparr>ChaindataTables := [''Gamma'', ''Beta'', ''Alpha'']\<rparr>)) =
   mset (ChaindataTables (initial\<lparr>ChaindataTables := [''Beta'', ''Alpha'', ''Gamma'']\<rparr>)) \<and>
   ChaindataTables (sortBuckets (initial\<lparr>ChaindataTables := [''Gamma'', ''Beta'', ''Alpha'']\<rparr>)) =
   ChaindataTables (sortBuckets (initial\<lparr>ChaindataTables := [''Beta'', ''Alpha'', ''Gamma'']\<rparr>)) \<and>
   ChaindataTables (sortBuckets (initial\<lparr>ChaindataTables := [''Beta'', ''Alpha'', ''Gamma'']\<rparr>)) =
   [''Alpha'', ''Beta'', ''Gamma'']"
  using sortBuckets_canonical
    [of "initial\<lparr>ChaindataTables := [''Beta'', ''Alpha'', ''Gamma'']\<rparr>"
        "initial\<lparr>ChaindataTables := [''Gamma'', ''Beta'', ''Alpha'']\<rparr>"]
  by (simp add: sortBuckets_def)

section \<open>Properties of reinit\<close>

lemma fill_defaults_apply:
  "fill_defaults ns m n = (if n \<in> set ns \<and> m n = None then Some zero_item else m n)"
  by (induction ns arbitrary: m) auto

lemma mark_deprecated_apply:
  "mark_deprecated ds m n =
     (if n \<in> set ds
      then Some ((case m n of Some c \<Rightarrow> c | None \<Rightarrow> zero_item)\<lparr>IsDeprecated := True\<rparr>)
      else m n)"
  by (induction ds arbitrary: m) (auto simp: Let_def)

lemma reinit_fields:
  "ChaindataTables (reinit s) = sort (ChaindataTables s)"
  "TxPoolTables (reinit s) = TxPoolTables s"
  "SentryTables (reinit s) = SentryTables s"
  "DownloaderTables (reinit s) = DownloaderTables s"
  "ReconTables (reinit s) = ReconTables s"
  "ChaindataDeprecatedTables (reinit s) = ChaindataDeprecatedTables s"
  "ChaindataTablesCfg (reinit s) =
     mark_deprecated (ChaindataDeprecatedTables s)
       (fill_defaults (sort (ChaindataTables s)) (ChaindataTablesCfg s))"
  "TxpoolTablesCfg (reinit s) = fill_defaults (TxPoolTables s) (TxpoolTablesCfg s)"
  "SentryTablesCfg (reinit s) = fill_defaults (SentryTables s) (SentryTablesCfg s)"
  "DownloaderTablesCfg (reinit s) = fill_defaults (DownloaderTables s) (DownloaderTablesCfg s)"
  "ReconTablesCfg (reinit s) = fill_defaults (ReconTables s) (ReconTablesCfg s)"
  by (simp_all add: reinit_def Let_def sortBuckets_def sort_SliceStable_sort)

lemma ChaindataTablesCfg_reinit_apply:
  "ChaindataTablesCfg (reinit s) n =
     (if n \<in> set (ChaindataDeprecatedTables s)
      then Some ((case ChaindataTablesCfg s n of Some c \<Rightarrow> c | None \<Rightarrow> zero_item)
                   \<lparr>IsDeprecated := True\<rparr>)
      else if n \<in> set (ChaindataTables s) \<and> ChaindataTablesCfg s n = None
      then Some zero_item
      else ChaindataTablesCfg s n)"
  by (simp add: reinit_fields mark_deprecated_apply fill_defaults_apply)

lemma fill_defaults_idem: "fill_defaults ns (fill_defaults ns m) = fill_defaults ns m"
  by (rule ext) (simp add: fill_defaults_apply)

lemma reinit_cfg_idem:
  "mark_deprecated ds
     (fill_defaults (sort (sort ns)) (mark_deprecated ds (fill_defaults (sort ns) m)))
   = mark_deprecated ds (fill_defaults (sort ns) m)"
  by (rule ext) (simp add: fill_defaults_apply mark_deprecated_apply)

text \<open>
  C6. \<open>reinit\<close> is idempotent: run on the state that a first run produced, it returns
  that state. The sorted table list, the other lists and the five configuration maps
  are all equal, so no entry is duplicated and none is reordered.
\<close>

theorem reinit_idempotent: "reinit (reinit s) = reinit s"
proof (rule vars.equality)
  show "ChaindataTables (reinit (reinit s)) = ChaindataTables (reinit s)"
    by (simp add: reinit_fields sorted_sort_id)
  show "ChaindataTablesCfg (reinit (reinit s)) = ChaindataTablesCfg (reinit s)"
    by (simp only: reinit_fields reinit_cfg_idem)
  show "vars.more (reinit (reinit s)) = vars.more (reinit s)"
    by simp
qed (simp_all add: reinit_fields fill_defaults_idem)

lemma dom_fill_defaults: "dom (fill_defaults ns m) = dom m \<union> set ns"
  by (auto simp: dom_def fill_defaults_apply)

lemma dom_mark_deprecated: "dom (mark_deprecated ds m) = dom m \<union> set ds"
  by (auto simp: dom_def mark_deprecated_apply)

lemma dom_ChaindataTablesCfg_reinit:
  "dom (ChaindataTablesCfg (reinit s)) =
     dom (ChaindataTablesCfg s) \<union> set (ChaindataTables s) \<union> set (ChaindataDeprecatedTables s)"
  by (simp add: reinit_fields dom_fill_defaults dom_mark_deprecated)

lemma set_ChaindataTables_reinit: "set (ChaindataTables (reinit s)) = set (ChaindataTables s)"
  by (simp add: reinit_fields)

subsection \<open>The shipped values of the variables\<close>

lemma initial_fields:
  "ChaindataTables initial = init_ChaindataTables"
  "TxPoolTables initial = init_TxPoolTables"
  "SentryTables initial = init_SentryTables"
  "DownloaderTables initial = init_DownloaderTables"
  "ReconTables initial = init_ReconTables"
  "ChaindataDeprecatedTables initial = init_ChaindataDeprecatedTables"
  "ChaindataTablesCfg initial = init_ChaindataTablesCfg"
  "TxpoolTablesCfg initial = Map.empty"
  "SentryTablesCfg initial = Map.empty"
  "DownloaderTablesCfg initial = Map.empty"
  "ReconTablesCfg initial = Map.empty"
  by (simp_all add: initial_def)

lemma init_lists_disjoint:
  "set init_ChaindataTables \<inter> set init_ChaindataDeprecatedTables = {}"
  by (simp add: init_ChaindataTables_def init_ChaindataDeprecatedTables_def)

lemma init_cfg_dom: "dom init_ChaindataTablesCfg \<subseteq> set init_ChaindataTables"
  by (simp add: init_ChaindataTablesCfg_def init_ChaindataTables_def)

lemma init_cfg_entries:
  assumes "init_ChaindataTablesCfg n = Some c"
  shows "c = zero_item\<lparr>Flags := DupSort\<rparr> \<or>
         n = PlainState \<and> c = zero_item\<lparr>Flags := DupSort, AutoDupSortKeysConversion := True,
            DupFromLen := 60, DupToLen := 28\<rparr> \<or>
         n = HashedStorage \<and> c = zero_item\<lparr>Flags := DupSort, AutoDupSortKeysConversion := True,
            DupFromLen := 72, DupToLen := 40\<rparr>"
  using map_of_SomeD [OF assms [unfolded init_ChaindataTablesCfg_def]]
  by (elim set_ConsD [elim_format]) auto

lemma sorted_init_ChaindataTables:
  "sort_SliceStable (\<lambda>a b. strings_Compare a b < 0) init_ChaindataTables =
    [AccountChangeSet, AccountsHistory, AccountHistoryKeys, AccountHistoryVals,
     AccountIdx, AccountKeys, AccountSettings, AccountVals, BlockBody,
     BorTxLookup, EthTx, TxLookup, BorReceipts, BorSeparate, CallFromIndex,
     CallToIndex, CallTraceSet, HeaderCanonical, CliqueLastSnapshot,
     CliqueSeparate, CliqueSnapshot, Code, CodeHistoryKeys, CodeHistoryVals,
     CodeIdx, CodeKeys, CodeSettings, CodeVals, ConfigTable,
     CumulativeGasIndex, CumulativeTransactionIndex, CurrentExecutionPayload,
     DatabaseInfo, Epoch, PendingEpoch, HashedAccounts, ContractCode,
     HashedStorage, Headers, HeaderNumber, HeaderTD, IncarnationMap, Issuance,
     HeadBlockKey, LastForkchoice, HeadHeaderKey, LogAddressIdx,
     LogAddressIndex, LogAddressKeys, LogTopicIndex, LogTopicsIdx,
     LogTopicsKeys, Migrations, NonCanonicalTxs, ParliaSnapshot,
     PlainContractCode, PlainState, RAccountIdx, RAccountKeys, RCodeIdx,
     RCodeKeys, RStorageIdx, RStorageKeys, Receipts, Sequence, Snapshots,
     StateAccounts, StateCode, StateCommitment, StateStorage, StorageChangeSet,
     StorageHistory, StorageHistoryKeys, StorageHistoryVals, StorageIdx,
     StorageKeys, StorageSettings, StorageVals, SyncStageProgress,
     ContractTEVMCode, TracesFromIdx, TracesFromKeys, TracesToIdx,
     TracesToKeys, Log, TrieOfAccounts, TrieOfStorage, Senders]"
  by code_simp

lemma ChaindataTables_init_1: "ChaindataTables (reinit initial) ! 1 = AccountsHistory"
  by (simp add: reinit_fields(1) [unfolded sort_SliceStable_sort [symmetric]]
      initial_fields sorted_init_ChaindataTables)

subsection \<open>Completeness and deprecation\<close>

text \<open>
  C3. After \<open>reinit\<close>, in each of the five catalogs every name of the table list has
  exactly one entry in the configuration map, and a listed name that had no entry
  before has the zero-value entry (flags Default, no conversion, not deprecated), except
  that in the chain-data catalog its \<open>IsDeprecated\<close> is true when the name is also in
  the deprecated list. The shipped deprecated list shares no name with the shipped
  table list.
\<close>

theorem reinit_complete:
  "(n \<in> set (ChaindataTables (reinit s)) \<longrightarrow>
      (\<exists>!c. ChaindataTablesCfg (reinit s) n = Some c) \<and>
      (ChaindataTablesCfg s n = None \<longrightarrow>
         ChaindataTablesCfg (reinit s) n
           = Some (zero_item\<lparr>IsDeprecated := n \<in> set (ChaindataDeprecatedTables s)\<rparr>))) \<and>
   (n \<in> set (TxPoolTables (reinit s)) \<longrightarrow>
      (\<exists>!c. TxpoolTablesCfg (reinit s) n = Some c) \<and>
      (TxpoolTablesCfg s n = None \<longrightarrow> TxpoolTablesCfg (reinit s) n = Some zero_item)) \<and>
   (n \<in> set (SentryTables (reinit s)) \<longrightarrow>
      (\<exists>!c. SentryTablesCfg (reinit s) n = Some c) \<and>
      (SentryTablesCfg s n = None \<longrightarrow> SentryTablesCfg (reinit s) n = Some zero_item)) \<and>
   (n \<in> set (DownloaderTables (reinit s)) \<longrightarrow>
      (\<exists>!c. DownloaderTablesCfg (reinit s) n = Some c) \<and>
      (DownloaderTablesCfg s n = None \<longrightarrow>
         DownloaderTablesCfg (reinit s) n = Some zero_item)) \<and>
   (n \<in> set (ReconTables (reinit s)) \<longrightarrow>
      (\<exists>!c. ReconTablesCfg (reinit s) n = Some c) \<and>
      (ReconTablesCfg s n = None \<longrightarrow> ReconTablesCfg (reinit s) n = Some zero_item)) \<and>
   set (ChaindataTables initial) \<inter> set (ChaindataDeprecatedTables initial) = {} \<and>
   Flags zero_item = Default \<and> \<not> AutoDupSortKeysConversion zero_item \<and>
   \<not> IsDeprecated zero_item"
  by (auto simp: reinit_fields fill_defaults_apply mark_deprecated_apply initial_fields
      init_lists_disjoint [simplified disjoint_iff] zero_item_def Default_def)

theorem reinit_complete_witness:
  "Code \<in> set (ChaindataTables (reinit initial)) \<and>
   ChaindataTablesCfg initial Code = None \<and>
   Code \<notin> set (ChaindataDeprecatedTables initial) \<and>
   ChaindataTablesCfg (reinit initial) Code = Some zero_item \<and>
   PoolInfo \<in> set (TxPoolTables (reinit initial)) \<and>
   TxpoolTablesCfg initial PoolInfo = None \<and>
   TxpoolTablesCfg (reinit initial) PoolInfo = Some zero_item \<and>
   Inodes \<in> set (SentryTables (reinit (initial\<lparr>SentryTables := [Inodes]\<rparr>))) \<and>
   SentryTablesCfg (initial\<lparr>SentryTables := [Inodes]\<rparr>) Inodes = None \<and>
   SentryTablesCfg (reinit (initial\<lparr>SentryTables := [Inodes]\<rparr>)) Inodes
     = Some zero_item \<and>
   BittorrentInfo \<in> set (DownloaderTables (reinit initial)) \<and>
   DownloaderTablesCfg initial BittorrentInfo = None \<and>
   DownloaderTablesCfg (reinit initial) BittorrentInfo = Some zero_item \<and>
   XCode \<in> set (ReconTables (reinit initial)) \<and>
   ReconTablesCfg initial XCode = None \<and>
   ReconTablesCfg (reinit initial) XCode = Some zero_item"
proof -
  let ?t = "initial\<lparr>SentryTables := [Inodes]\<rparr>"
  have c: "Code \<in> set (ChaindataTables (reinit initial))"
    "ChaindataTablesCfg initial Code = None"
    "Code \<notin> set (ChaindataDeprecatedTables initial)"
    by (simp_all add: set_ChaindataTables_reinit initial_fields init_ChaindataTables_def
        init_ChaindataTablesCfg_def init_ChaindataDeprecatedTables_def)
  have p: "PoolInfo \<in> set (TxPoolTables (reinit initial))"
    "TxpoolTablesCfg initial PoolInfo = None"
    by (simp_all add: reinit_fields initial_fields init_TxPoolTables_def)
  have i: "Inodes \<in> set (SentryTables (reinit ?t))" "SentryTablesCfg ?t Inodes = None"
    by (simp_all add: reinit_fields initial_fields)
  have b: "BittorrentInfo \<in> set (DownloaderTables (reinit initial))"
    "DownloaderTablesCfg initial BittorrentInfo = None"
    by (simp_all add: reinit_fields initial_fields init_DownloaderTables_def)
  have x: "XCode \<in> set (ReconTables (reinit initial))" "ReconTablesCfg initial XCode = None"
    by (simp_all add: reinit_fields initial_fields init_ReconTables_def)
  from reinit_complete [of Code initial] c
  have c': "ChaindataTablesCfg (reinit initial) Code = Some zero_item"
    by (simp add: zero_item_def)
  from reinit_complete [of PoolInfo initial] p
  have p': "TxpoolTablesCfg (reinit initial) PoolInfo = Some zero_item" by blast
  from reinit_complete [of Inodes ?t] i
  have i': "SentryTablesCfg (reinit ?t) Inodes = Some zero_item" by blast
  from reinit_complete [of BittorrentInfo initial] b
  have b': "DownloaderTablesCfg (reinit initial) BittorrentInfo = Some zero_item" by blast
  from reinit_complete [of XCode initial] x
  have x': "ReconTablesCfg (reinit initial) XCode = Some zero_item" by blast
  from c c' p p' i i' b b' x x' show ?thesis
    by (simp only: simp_thms)
qed

text \<open>
  The claim C3 without the exception fails where a listed name without an entry is also
  deprecated: with the table list Beta, Alpha, Gamma, the deprecated list Gamma and an
  empty configuration map, the entry of Gamma after \<open>reinit\<close> has \<open>IsDeprecated\<close> set
  and is not the zero-value entry.
\<close>

theorem reinit_listed_deprecated_entry:
  "''Gamma'' \<in> set (ChaindataTables (reinit (initial\<lparr>ChaindataTables := [''Beta'', ''Alpha'', ''Gamma''],
      ChaindataDeprecatedTables := [''Gamma''], ChaindataTablesCfg := Map.empty\<rparr>))) \<and>
   ChaindataTablesCfg (initial\<lparr>ChaindataTables := [''Beta'', ''Alpha'', ''Gamma''],
      ChaindataDeprecatedTables := [''Gamma''], ChaindataTablesCfg := Map.empty\<rparr>) ''Gamma'' = None \<and>
   ChaindataTablesCfg (reinit (initial\<lparr>ChaindataTables := [''Beta'', ''Alpha'', ''Gamma''],
      ChaindataDeprecatedTables := [''Gamma''], ChaindataTablesCfg := Map.empty\<rparr>)) ''Gamma''
     = Some (zero_item\<lparr>IsDeprecated := True\<rparr>) \<and>
   ChaindataTablesCfg (reinit (initial\<lparr>ChaindataTables := [''Beta'', ''Alpha'', ''Gamma''],
      ChaindataDeprecatedTables := [''Gamma''], ChaindataTablesCfg := Map.empty\<rparr>)) ''Gamma''
     \<noteq> Some zero_item"
  by (simp add: set_ChaindataTables_reinit ChaindataTablesCfg_reinit_apply zero_item_def)

text \<open>
  C4. After \<open>reinit\<close>, every name of the chain-data deprecated list has an entry in
  \<open>ChaindataTablesCfg\<close> whose \<open>IsDeprecated\<close> is true; a name that had no entry before
  has the zero-value entry with \<open>IsDeprecated\<close> set. The shipped list is Clique and
  TransitionBlockKey.
\<close>

theorem reinit_marks_deprecated:
  assumes "n \<in> set (ChaindataDeprecatedTables (reinit s))"
  shows "(\<exists>c. ChaindataTablesCfg (reinit s) n = Some c \<and> IsDeprecated c) \<and>
         (ChaindataTablesCfg s n = None \<longrightarrow>
            ChaindataTablesCfg (reinit s) n = Some (zero_item\<lparr>IsDeprecated := True\<rparr>))"
  using assms by (simp add: ChaindataTablesCfg_reinit_apply reinit_fields(6))

theorem reinit_marks_deprecated_witness:
  "ChaindataDeprecatedTables (reinit initial) = [Clique, TransitionBlockKey] \<and>
   ChaindataTablesCfg initial Clique = None \<and>
   ChaindataTablesCfg initial TransitionBlockKey = None \<and>
   ChaindataTablesCfg (reinit initial) Clique = Some (zero_item\<lparr>IsDeprecated := True\<rparr>) \<and>
   ChaindataTablesCfg (reinit initial) TransitionBlockKey
     = Some (zero_item\<lparr>IsDeprecated := True\<rparr>) \<and>
   IsDeprecated (zero_item\<lparr>IsDeprecated := True\<rparr>)"
proof -
  have l: "ChaindataDeprecatedTables (reinit initial) = [Clique, TransitionBlockKey]"
    by (simp add: reinit_fields initial_fields init_ChaindataDeprecatedTables_def)
  then have m: "Clique \<in> set (ChaindataDeprecatedTables (reinit initial))"
    "TransitionBlockKey \<in> set (ChaindataDeprecatedTables (reinit initial))"
    by simp_all
  have e: "ChaindataTablesCfg initial Clique = None"
    "ChaindataTablesCfg initial TransitionBlockKey = None"
    by (simp_all add: initial_fields init_ChaindataTablesCfg_def)
  from reinit_marks_deprecated [OF m(1)] e(1)
  have c: "ChaindataTablesCfg (reinit initial) Clique = Some (zero_item\<lparr>IsDeprecated := True\<rparr>)"
    by blast
  from reinit_marks_deprecated [OF m(2)] e(2)
  have t: "ChaindataTablesCfg (reinit initial) TransitionBlockKey
             = Some (zero_item\<lparr>IsDeprecated := True\<rparr>)"
    by blast
  from l e c t show ?thesis
    by simp
qed

text \<open>
  C9. Once the package is initialised, the names of \<open>ChaindataTables\<close> are a proper
  subset of the domain of \<open>ChaindataTablesCfg\<close>: the domain is the table list together
  with Clique and TransitionBlockKey, which are not in the list and have entries with
  \<open>IsDeprecated\<close> set.
\<close>

theorem init_cfg_domain_larger:
  "set (ChaindataTables init) \<subset> dom (ChaindataTablesCfg init) \<and>
   dom (ChaindataTablesCfg init) = set (ChaindataTables init) \<union> {Clique, TransitionBlockKey} \<and>
   Clique \<notin> set (ChaindataTables init) \<and>
   TransitionBlockKey \<notin> set (ChaindataTables init) \<and>
   ChaindataTablesCfg init Clique = Some (zero_item\<lparr>IsDeprecated := True\<rparr>) \<and>
   ChaindataTablesCfg init TransitionBlockKey = Some (zero_item\<lparr>IsDeprecated := True\<rparr>)"
proof -
  have tabs: "set (ChaindataTables init) = set init_ChaindataTables"
    by (simp add: init_def set_ChaindataTables_reinit initial_fields)
  have dom: "dom (ChaindataTablesCfg init) = set init_ChaindataTables \<union> {Clique, TransitionBlockKey}"
    using init_cfg_dom
    by (auto simp: init_def dom_ChaindataTablesCfg_reinit initial_fields
        init_ChaindataDeprecatedTables_def)
  have out: "Clique \<notin> set init_ChaindataTables" "TransitionBlockKey \<notin> set init_ChaindataTables"
    by (simp_all add: init_ChaindataTables_def)
  have ents: "ChaindataTablesCfg init Clique = Some (zero_item\<lparr>IsDeprecated := True\<rparr>)"
    "ChaindataTablesCfg init TransitionBlockKey = Some (zero_item\<lparr>IsDeprecated := True\<rparr>)"
    by (simp_all add: init_def ChaindataTablesCfg_reinit_apply initial_fields
        init_ChaindataDeprecatedTables_def init_ChaindataTablesCfg_def)
  from out have "set init_ChaindataTables \<subset> set init_ChaindataTables \<union> {Clique, TransitionBlockKey}"
    by blast
  with tabs dom out ents show ?thesis
    by (simp only: simp_thms)
qed

subsection \<open>What reinit leaves unchanged\<close>

text \<open>
  C10. \<open>reinit\<close> overwrites no field of an existing entry other than \<open>IsDeprecated\<close>:
  an entry of \<open>ChaindataTablesCfg\<close> present before keeps its \<open>Flags\<close>,
  \<open>AutoDupSortKeysConversion\<close>, \<open>DupFromLen\<close>, \<open>DupToLen\<close> and \<open>DBI\<close>, and its
  \<open>IsDeprecated\<close> differs afterwards only if the name is in the deprecated list, where
  it is true. An existing entry of one of the other four maps is unchanged.
\<close>

theorem reinit_frame:
  "(ChaindataTablesCfg s n = Some c \<longrightarrow>
      (\<exists>c'. ChaindataTablesCfg (reinit s) n = Some c' \<and>
         Flags c' = Flags c \<and>
         AutoDupSortKeysConversion c' = AutoDupSortKeysConversion c \<and>
         DupFromLen c' = DupFromLen c \<and>
         DupToLen c' = DupToLen c \<and>
         DBI c' = DBI c \<and>
         IsDeprecated c' = (IsDeprecated c \<or> n \<in> set (ChaindataDeprecatedTables s)))) \<and>
   (TxpoolTablesCfg s n = Some c \<longrightarrow> TxpoolTablesCfg (reinit s) n = Some c) \<and>
   (SentryTablesCfg s n = Some c \<longrightarrow> SentryTablesCfg (reinit s) n = Some c) \<and>
   (DownloaderTablesCfg s n = Some c \<longrightarrow> DownloaderTablesCfg (reinit s) n = Some c) \<and>
   (ReconTablesCfg s n = Some c \<longrightarrow> ReconTablesCfg (reinit s) n = Some c)"
  by (simp add: ChaindataTablesCfg_reinit_apply reinit_fields(8-11) fill_defaults_apply)

theorem reinit_frame_witness:
  "ChaindataTablesCfg initial PlainState =
     Some (zero_item\<lparr>Flags := DupSort, AutoDupSortKeysConversion := True,
             DupFromLen := 60, DupToLen := 28\<rparr>) \<and>
   PlainState \<notin> set (ChaindataDeprecatedTables initial) \<and>
   ChaindataTablesCfg (reinit initial) PlainState =
     Some (zero_item\<lparr>Flags := DupSort, AutoDupSortKeysConversion := True,
             DupFromLen := 60, DupToLen := 28\<rparr>) \<and>
   TxpoolTablesCfg init PoolInfo = Some zero_item \<and>
   TxpoolTablesCfg (reinit init) PoolInfo = Some zero_item \<and>
   SentryTablesCfg (initial\<lparr>SentryTablesCfg := [Inodes \<mapsto> zero_item]\<rparr>) Inodes
     = Some zero_item \<and>
   SentryTablesCfg (reinit (initial\<lparr>SentryTablesCfg := [Inodes \<mapsto> zero_item]\<rparr>)) Inodes
     = Some zero_item \<and>
   DownloaderTablesCfg init BittorrentInfo = Some zero_item \<and>
   DownloaderTablesCfg (reinit init) BittorrentInfo = Some zero_item \<and>
   ReconTablesCfg init XCode = Some zero_item \<and>
   ReconTablesCfg (reinit init) XCode = Some zero_item"
proof -
  let ?plain = "zero_item\<lparr>Flags := DupSort, AutoDupSortKeysConversion := True,
                  DupFromLen := 60, DupToLen := 28\<rparr>"
  let ?t = "initial\<lparr>SentryTablesCfg := [Inodes \<mapsto> zero_item]\<rparr>"
  have c: "ChaindataTablesCfg initial PlainState = Some ?plain"
    by (simp add: initial_fields init_ChaindataTablesCfg_def)
  have d: "PlainState \<notin> set (ChaindataDeprecatedTables initial)"
    by (simp add: initial_fields init_ChaindataDeprecatedTables_def)
  from reinit_frame [of initial PlainState ?plain] c d
  obtain c' where c': "ChaindataTablesCfg (reinit initial) PlainState = Some c'"
    "Flags c' = Flags ?plain"
    "AutoDupSortKeysConversion c' = AutoDupSortKeysConversion ?plain"
    "DupFromLen c' = DupFromLen ?plain" "DupToLen c' = DupToLen ?plain"
    "DBI c' = DBI ?plain" "IsDeprecated c' = IsDeprecated ?plain"
    by auto
  have "c' = ?plain"
    using c'(2-7) by (intro TableCfgItem.equality) simp_all
  with c' have c'': "ChaindataTablesCfg (reinit initial) PlainState = Some ?plain"
    by simp
  have p: "TxpoolTablesCfg init PoolInfo = Some zero_item"
    by (simp add: init_def reinit_fields fill_defaults_apply initial_fields init_TxPoolTables_def)
  have i: "SentryTablesCfg ?t Inodes = Some zero_item"
    by simp
  have b: "DownloaderTablesCfg init BittorrentInfo = Some zero_item"
    by (simp add: init_def reinit_fields fill_defaults_apply initial_fields
        init_DownloaderTables_def)
  have x: "ReconTablesCfg init XCode = Some zero_item"
    by (simp add: init_def reinit_fields fill_defaults_apply initial_fields init_ReconTables_def)
  from reinit_frame [of init PoolInfo zero_item] p
  have p': "TxpoolTablesCfg (reinit init) PoolInfo = Some zero_item" by blast
  from reinit_frame [of ?t Inodes zero_item] i
  have i': "SentryTablesCfg (reinit ?t) Inodes = Some zero_item" by blast
  from reinit_frame [of init BittorrentInfo zero_item] b
  have b': "DownloaderTablesCfg (reinit init) BittorrentInfo = Some zero_item" by blast
  from reinit_frame [of init XCode zero_item] x
  have x': "ReconTablesCfg (reinit init) XCode = Some zero_item" by blast
  from c d c'' p p' i i' b b' x x' show ?thesis
    by (simp only: simp_thms)
qed

subsection \<open>Ordinals\<close>

text \<open>
  No statement of \<open>reinit\<close> writes the field \<open>DBI\<close>: after it, the \<open>DBI\<close> of the entry of
  a listed name is the one the entry had before, or 0, the zero value, when \<open>reinit\<close>
  created the entry.
\<close>

lemma reinit_leaves_DBI:
  "(n \<in> set (ChaindataTables (reinit s)) \<longrightarrow>
      map_option DBI (ChaindataTablesCfg (reinit s) n)
        = Some (case ChaindataTablesCfg s n of None \<Rightarrow> 0 | Some c \<Rightarrow> DBI c)) \<and>
   (n \<in> set (TxPoolTables (reinit s)) \<longrightarrow>
      map_option DBI (TxpoolTablesCfg (reinit s) n)
        = Some (case TxpoolTablesCfg s n of None \<Rightarrow> 0 | Some c \<Rightarrow> DBI c)) \<and>
   (n \<in> set (SentryTables (reinit s)) \<longrightarrow>
      map_option DBI (SentryTablesCfg (reinit s) n)
        = Some (case SentryTablesCfg s n of None \<Rightarrow> 0 | Some c \<Rightarrow> DBI c)) \<and>
   (n \<in> set (DownloaderTables (reinit s)) \<longrightarrow>
      map_option DBI (DownloaderTablesCfg (reinit s) n)
        = Some (case DownloaderTablesCfg s n of None \<Rightarrow> 0 | Some c \<Rightarrow> DBI c)) \<and>
   (n \<in> set (ReconTables (reinit s)) \<longrightarrow>
      map_option DBI (ReconTablesCfg (reinit s) n)
        = Some (case ReconTablesCfg s n of None \<Rightarrow> 0 | Some c \<Rightarrow> DBI c))"
  by (auto simp: ChaindataTablesCfg_reinit_apply set_ChaindataTables_reinit
      reinit_fields(2-5,8-11) fill_defaults_apply zero_item_def split: option.splits)

text \<open>
  C7. The \<open>DBI\<close> of a listed name is to be its position in the sorted table list, and
  the comment of \<^verbatim>\<open>ChaindataTables\<close> says that \<^verbatim>\<open>ChaindataTablesCfg\<close> can be used
  to find the index in the sorted list by name. The code does not do so: once the
  package is initialised, AccountsHistory is at position 1 of the sorted chain-data list
  and the \<open>DBI\<close> of its entry is 0.
\<close>

theorem init_DBI_not_position:
  "ChaindataTables init ! 1 = AccountsHistory \<and>
   map_option DBI (ChaindataTablesCfg init AccountsHistory) = Some 0 \<and>
   map_option DBI (ChaindataTablesCfg init AccountsHistory) \<noteq> Some 1"
proof -
  have e: "ChaindataTablesCfg init AccountsHistory = Some zero_item"
    by (simp add: init_def ChaindataTablesCfg_reinit_apply initial_fields
        init_ChaindataDeprecatedTables_def init_ChaindataTables_def init_ChaindataTablesCfg_def)
  have pos: "ChaindataTables init ! 1 = AccountsHistory"
    by (simp only: init_def ChaindataTables_init_1)
  from e pos show ?thesis
    by (simp add: zero_item_def)
qed

subsection \<open>The invariant of the split lengths\<close>

lemma dup_lens_ok_initial:
  assumes "init_ChaindataTablesCfg n = Some c"
  shows "dup_lens_ok c"
  using init_cfg_entries [OF assms] by (auto simp: dup_lens_ok_def zero_item_def)

lemma conversion_initial:
  assumes "init_ChaindataTablesCfg n = Some c" and "AutoDupSortKeysConversion c"
  shows "(n, DupFromLen c, DupToLen c) \<in> {(PlainState, 60, 28), (HashedStorage, 72, 40)}"
  using init_cfg_entries [OF assms(1)] assms(2) by (auto simp: zero_item_def)

text \<open>
  C8. In every configuration map of the package, as declared and as initialised, an
  entry with \<open>AutoDupSortKeysConversion\<close> enabled has \<open>DupFromLen \<ge> DupToLen \<ge> 0\<close>.
  The only such entries are those of PlainState, with lengths 60 and 28, and of
  HashedStorage, with lengths 72 and 40.
\<close>

theorem init_dup_lens_ok:
  assumes "cfg \<in> {ChaindataTablesCfg init, TxpoolTablesCfg init, SentryTablesCfg init,
                   DownloaderTablesCfg init, ReconTablesCfg init,
                   ChaindataTablesCfg initial, TxpoolTablesCfg initial,
                   SentryTablesCfg initial, DownloaderTablesCfg initial,
                   ReconTablesCfg initial}"
    and "cfg n = Some c"
    and "AutoDupSortKeysConversion c"
  shows "DupFromLen c \<ge> DupToLen c \<and> DupToLen c \<ge> 0 \<and>
         (n, DupFromLen c, DupToLen c) \<in> {(PlainState, 60, 28), (HashedStorage, 72, 40)}"
proof -
  have other: "fill_defaults ns Map.empty n = Some c \<Longrightarrow> False" for ns
    using assms(3) by (auto simp: fill_defaults_apply zero_item_def split: if_splits)
  from assms(1) other assms(2)
  have "ChaindataTablesCfg init n = Some c \<or> init_ChaindataTablesCfg n = Some c"
    by (auto simp: init_def reinit_fields(8-11) initial_fields)
  then obtain c0 where c0: "init_ChaindataTablesCfg n = Some c0"
    and c: "c = c0 \<or> c = c0\<lparr>IsDeprecated := True\<rparr>"
    using assms(3)
    by (auto simp: init_def ChaindataTablesCfg_reinit_apply initial_fields zero_item_def
        split: if_splits option.splits)
  from c assms(3) have conv: "AutoDupSortKeysConversion c0"
    by auto
  from c have eq: "DupFromLen c = DupFromLen c0" "DupToLen c = DupToLen c0"
    by auto
  from dup_lens_ok_initial [OF c0] conv conversion_initial [OF c0 conv] show ?thesis
    by (simp add: eq dup_lens_ok_def)
qed

theorem init_dup_lens_ok_witness:
  "ChaindataTablesCfg init PlainState =
     Some (zero_item\<lparr>Flags := DupSort, AutoDupSortKeysConversion := True,
             DupFromLen := 60, DupToLen := 28\<rparr>) \<and>
   ChaindataTablesCfg init HashedStorage =
     Some (zero_item\<lparr>Flags := DupSort, AutoDupSortKeysConversion := True,
             DupFromLen := 72, DupToLen := 40\<rparr>) \<and>
   (60 :: int) \<ge> 28 \<and> (28 :: int) \<ge> 0 \<and> (72 :: int) \<ge> 40 \<and> (40 :: int) \<ge> 0"
proof -
  let ?plain = "zero_item\<lparr>Flags := DupSort, AutoDupSortKeysConversion := True,
                  DupFromLen := 60, DupToLen := 28\<rparr>"
  let ?hashed = "zero_item\<lparr>Flags := DupSort, AutoDupSortKeysConversion := True,
                  DupFromLen := 72, DupToLen := 40\<rparr>"
  have p: "ChaindataTablesCfg init PlainState = Some ?plain"
    by (simp add: init_def ChaindataTablesCfg_reinit_apply initial_fields
        init_ChaindataDeprecatedTables_def init_ChaindataTablesCfg_def)
  have h: "ChaindataTablesCfg init HashedStorage = Some ?hashed"
    by (simp add: init_def ChaindataTablesCfg_reinit_apply initial_fields
        init_ChaindataDeprecatedTables_def init_ChaindataTablesCfg_def)
  have "DupFromLen ?plain \<ge> DupToLen ?plain \<and> DupToLen ?plain \<ge> 0"
    using init_dup_lens_ok [of "ChaindataTablesCfg init" PlainState ?plain] p by simp
  moreover have "DupFromLen ?hashed \<ge> DupToLen ?hashed \<and> DupToLen ?hashed \<ge> 0"
    using init_dup_lens_ok [of "ChaindataTablesCfg init" HashedStorage ?hashed] h by simp
  ultimately show ?thesis
    using p h by simp
qed

end
